theory Spec2Isabelle
  imports Main
begin

section \<open>The finalized-block tracker of \<^verbatim>\<open>relayer/chainsentry/chainsentry.go\<close>\<close>

text \<open>
  A shallow embedding of \<^verbatim>\<open>ChainSentry\<close>: the struct is a record, every method
  takes the record and returns the updated one, and the three ways a Go call can end
  (a normal return, \<^verbatim>\<open>log.Fatalln\<close> terminating the process, a runtime panic) are
  the three constructors of \<open>outcome\<close>.

  Modelling decisions:
  \<^item> Block heights are Go \<^verbatim>\<open>int64\<close> values and the two configuration fields are Go
    \<^verbatim>\<open>int\<close>; both are modelled as unbounded integers, so the model is the code as
    long as every height, and every sum or difference the code computes from heights,
    stays inside the \<^verbatim>\<open>int64\<close> range.
  \<^item> A block is the \<^verbatim>\<open>map[string]interface{}\<close> that \<^verbatim>\<open>json.Unmarshal\<close> produced;
    \<open>'v\<close> is the type of the non-nil dynamic values.
  \<^item> The chain proxy, the JSON decoder and the network are outside the repository's
    sources. One call of \<^verbatim>\<open>Init\<close> or \<^verbatim>\<open>catchupOnFinalizedBlocks\<close> asks for the tip
    once and for every block number at most once, so what the outside world answers
    during one call is a value of type \<open>chain\<close>: one reply for the tip and one reply
    per block number.
  \<^item> The mutex and the atomic loads and stores are not modelled: the embedding is
    sequential.
\<close>

subsection \<open>Data\<close>

datatype error = ParseMsgError | SendError | UnmarshalError

text \<open>A value of type \<^verbatim>\<open>interface{}\<close>: \<^verbatim>\<open>nil\<close> or a dynamic value.\<close>

datatype 'v iface = Nil | Val 'v

type_synonym 'v block = "string \<rightharpoonup> 'v iface"

text \<open>Reading \<^verbatim>\<open>m[k]\<close> from a Go map: a missing key reads as the zero value \<^verbatim>\<open>nil\<close>.\<close>

definition index_map :: "'v block \<Rightarrow> string \<Rightarrow> 'v iface" where
  "index_map m k = (case m k of None \<Rightarrow> Nil | Some v \<Rightarrow> v)"

text \<open>How a Go call ends.\<close>

datatype 'a outcome =
    Return 'a     \<comment> \<open>the call returns\<close>
  | Fatal         \<comment> \<open>\<^verbatim>\<open>log.Fatalln\<close>: the message is logged and the process exits with status 1\<close>
  | Panic         \<comment> \<open>a runtime panic: index or slice bounds out of range\<close>

text \<open>
  What the endpoint answers during one call. \<open>tipReply\<close> is \<open>Inl e\<close> when
  \<^verbatim>\<open>ParseMsg\<close>, \<^verbatim>\<open>Send\<close> or the decoding of the reply envelope fails for the
  \<^verbatim>\<open>eth_blockNumber\<close> request, and otherwise \<open>Inr n\<close> for the number that
  \<^verbatim>\<open>strconv.ParseInt\<close> yields on the result (the errors of \<^verbatim>\<open>Unquote\<close> and
  \<^verbatim>\<open>ParseInt\<close> are dropped by the code). \<open>blockReply i\<close> is \<open>Inl e\<close> when
  \<^verbatim>\<open>ParseMsg\<close>, \<^verbatim>\<open>Send\<close> or the decoding of the result fails for the
  \<^verbatim>\<open>eth_getBlockByNumber\<close> request of block \<open>i\<close>, and otherwise the decoded block.
\<close>

record 'v chain =
  tipReply :: "error + int"
  blockReply :: "int \<Rightarrow> error + 'v block"

record 'v ChainSentry =
  finalizedBlockDistance :: int
  numFinalBlocks :: int
  latestBlockNum :: int
  ChainID :: string
  blocksQueue :: "'v block list"

definition DEFAULT_NUM_FINAL_BLOCKS :: int where
  "DEFAULT_NUM_FINAL_BLOCKS = 3"

definition DEFAULT_NUM_SAVED_BLOCKS :: int where
  "DEFAULT_NUM_SAVED_BLOCKS = 7"

text \<open>The constructor leaves \<^verbatim>\<open>latestBlockNum\<close> and \<^verbatim>\<open>blocksQueue\<close> at their zero values.\<close>

definition NewChainSentry :: "string \<Rightarrow> 'v ChainSentry" where
  "NewChainSentry chainID =
     \<lparr> finalizedBlockDistance = DEFAULT_NUM_SAVED_BLOCKS,
       numFinalBlocks = DEFAULT_NUM_FINAL_BLOCKS,
       latestBlockNum = 0,
       ChainID = chainID,
       blocksQueue = [] \<rparr>"

subsection \<open>Reading the tracker\<close>

definition GetLatestBlockNum :: "'v ChainSentry \<Rightarrow> int" where
  "GetLatestBlockNum cs = latestBlockNum cs"

definition SetLatestBlockNum :: "'v ChainSentry \<Rightarrow> int \<Rightarrow> 'v ChainSentry" where
  "SetLatestBlockNum cs v = cs\<lparr>latestBlockNum := v\<rparr>"

text \<open>
  The loop of \<^verbatim>\<open>GetLatestBlockData\<close>, from index \<open>i\<close> with the map built so far.
  \<^verbatim>\<open>cs.blocksQueue[i]\<close> panics when \<open>i\<close> is not an index of the queue.
\<close>

function GetLatestBlockData_loop ::
  "'v ChainSentry \<Rightarrow> int \<Rightarrow> int \<Rightarrow> (int \<rightharpoonup> 'v iface) \<Rightarrow> (int \<rightharpoonup> 'v iface) outcome" where
  "GetLatestBlockData_loop cs latest i hashes =
     (if i < numFinalBlocks cs then
        (let blockNum = latest - finalizedBlockDistance cs - numFinalBlocks cs + i in
         if 0 \<le> i \<and> nat i < length (blocksQueue cs) then
           GetLatestBlockData_loop cs latest (i + 1)
             (hashes(blockNum \<mapsto> index_map (blocksQueue cs ! nat i) ''hash''))
         else Panic)
      else Return hashes)"
  by pat_completeness auto
termination
  by (relation "measure (\<lambda>(cs, latest, i, hashes). nat (numFinalBlocks cs - i))") auto

definition GetLatestBlockData ::
  "'v ChainSentry \<Rightarrow> (int \<times> (int \<rightharpoonup> 'v iface) \<times> error option) outcome" where
  "GetLatestBlockData cs =
     (let latest = GetLatestBlockNum cs in
      case GetLatestBlockData_loop cs latest 0 Map.empty of
        Return hashes \<Rightarrow> Return (latest, hashes, None)
      | Fatal \<Rightarrow> Fatal
      | Panic \<Rightarrow> Panic)"

subsection \<open>Asking the chain\<close>

text \<open>Every failure is returned as \<^verbatim>\<open>(-1, err)\<close>.\<close>

definition fetchLatestBlockNum :: "'v chain \<Rightarrow> int \<times> error option" where
  "fetchLatestBlockNum ch =
     (case tipReply ch of
        Inl err \<Rightarrow> (- 1, Some err)
      | Inr latestBlock \<Rightarrow> (latestBlock, None))"

text \<open>
  Every failure goes through \<^verbatim>\<open>log.Fatalln\<close>, which never comes back: the
  \<^verbatim>\<open>return nil, err\<close> behind it is not reached, and a call that returns returns a
  nil error.
\<close>

definition fetchBlockByNum :: "'v chain \<Rightarrow> int \<Rightarrow> ('v block \<times> error option) outcome" where
  "fetchBlockByNum ch blockNum =
     (case blockReply ch blockNum of
        Inl err \<Rightarrow> Fatal
      | Inr result \<Rightarrow> Return (result, None))"

subsection \<open>Filling and advancing the queue\<close>

text \<open>The loop of \<^verbatim>\<open>Init\<close>: \<^verbatim>\<open>for ; i <= hi; i++\<close>, appending every fetched block.\<close>

function Init_loop ::
  "'v chain \<Rightarrow> int \<Rightarrow> int \<Rightarrow> 'v ChainSentry \<Rightarrow> 'v ChainSentry outcome" where
  "Init_loop ch i hi cs =
     (if i \<le> hi then
        (case fetchBlockByNum ch i of
           Return (result, err) \<Rightarrow>
             (case err of
                Some e \<Rightarrow> Fatal
              | None \<Rightarrow> Init_loop ch (i + 1) hi (cs\<lparr>blocksQueue := blocksQueue cs @ [result]\<rparr>))
         | Fatal \<Rightarrow> Fatal
         | Panic \<Rightarrow> Panic)
      else Return cs)"
  by pat_completeness auto
termination
  by (relation "measure (\<lambda>(ch, i, hi, cs). nat (hi + 1 - i))") auto

definition Init :: "'v chain \<Rightarrow> 'v ChainSentry \<Rightarrow> (error option \<times> 'v ChainSentry) outcome" where
  "Init ch cs =
     (case fetchLatestBlockNum ch of
        (latestBlock, Some err) \<Rightarrow> Fatal
      | (latestBlock, None) \<Rightarrow>
          (let cs1 = SetLatestBlockNum cs latestBlock in
           case Init_loop ch
                  (latestBlock - (finalizedBlockDistance cs1 + numFinalBlocks cs1))
                  (latestBlock - finalizedBlockDistance cs1 - 1) cs1 of
             Return cs2 \<Rightarrow> Return (None, cs2)
           | Fatal \<Rightarrow> Fatal
           | Panic \<Rightarrow> Panic))"

text \<open>The loop of \<^verbatim>\<open>catchupOnFinalizedBlocks\<close>.\<close>

function catchup_loop ::
  "'v chain \<Rightarrow> int \<Rightarrow> int \<Rightarrow> 'v ChainSentry \<Rightarrow> 'v ChainSentry outcome" where
  "catchup_loop ch i latestBlock cs =
     (if i \<le> latestBlock then
        (case fetchBlockByNum ch i of
           Return (blockData, err) \<Rightarrow>
             (case err of
                Some e \<Rightarrow> Fatal
              | None \<Rightarrow>
                  catchup_loop ch (i + 1) latestBlock
                    (cs\<lparr>blocksQueue := blocksQueue cs @ [blockData]\<rparr>))
         | Fatal \<Rightarrow> Fatal
         | Panic \<Rightarrow> Panic)
      else Return cs)"
  by pat_completeness auto
termination
  by (relation "measure (\<lambda>(ch, i, latestBlock, cs). nat (latestBlock + 1 - i))") auto

text \<open>
  The slice expression \<^verbatim>\<open>q[low:]\<close>: a runtime panic (\<open>None\<close>) unless
  \<open>0 \<le> low \<le> len(q)\<close>.
\<close>

definition slice_from :: "'a list \<Rightarrow> int \<Rightarrow> 'a list option" where
  "slice_from q low =
     (if 0 \<le> low \<and> low \<le> int (length q) then Some (drop (nat low) q) else None)"

text \<open>
  An error of the tip fetch is only logged: the cycle goes on with the \<open>-1\<close> that
  \<^verbatim>\<open>fetchLatestBlockNum\<close> returned. The function returns \<^verbatim>\<open>nil\<close> whenever it returns.
\<close>

definition catchupOnFinalizedBlocks ::
  "'v chain \<Rightarrow> 'v ChainSentry \<Rightarrow> (error option \<times> 'v ChainSentry) outcome" where
  "catchupOnFinalizedBlocks ch cs =
     (case fetchLatestBlockNum ch of
        (latestBlock, err) \<Rightarrow>
          if latestBlockNum cs \<noteq> latestBlock then
            (let prevLatestBlock = GetLatestBlockNum cs in
             case catchup_loop ch (prevLatestBlock + 1) latestBlock cs of
               Return cs1 \<Rightarrow>
                 (case slice_from (blocksQueue cs1) (latestBlock - prevLatestBlock) of
                    None \<Rightarrow> Panic
                  | Some q \<Rightarrow>
                      Return (None, cs1\<lparr>blocksQueue := q, latestBlockNum := latestBlock\<rparr>))
             | Fatal \<Rightarrow> Fatal
             | Panic \<Rightarrow> Panic)
          else Return (None, cs))"

text \<open>
  The goroutine of \<^verbatim>\<open>Start\<close> over a finite run of ticks: one refresh cycle per tick,
  its returned error discarded; the list holds what the chain answers at each tick.
\<close>

fun Start :: "'v chain list \<Rightarrow> 'v ChainSentry \<Rightarrow> 'v ChainSentry outcome" where
  "Start [] cs = Return cs"
| "Start (ch # chs) cs =
     (case catchupOnFinalizedBlocks ch cs of
        Return (err, cs1) \<Rightarrow> Start chs cs1
      | Fatal \<Rightarrow> Fatal
      | Panic \<Rightarrow> Panic)"

subsection \<open>The states the tracker can be in once it is in use\<close>


subsection \<open>A chain and a tracker to run the code on\<close>

text \<open>
  Block \<open>i\<close> of the example chain carries its number and the hash \<open>1000 + i\<close>.
  \<open>chain_ok tip\<close> reports the tip \<open>tip\<close> and serves every block;
  \<open>chain_fail tip k\<close> does the same but the fetch of block \<open>k\<close> fails;
  \<open>chain_down\<close> fails every request.
\<close>

definition block_at :: "int \<Rightarrow> int block" where
  "block_at i = [''number'' \<mapsto> Val i, ''hash'' \<mapsto> Val (1000 + i)]"

definition number_of :: "int block \<Rightarrow> int iface" where
  "number_of b = index_map b ''number''"

definition chain_ok :: "int \<Rightarrow> int chain" where
  "chain_ok tip = \<lparr> tipReply = Inr tip, blockReply = (\<lambda>i. Inr (block_at i)) \<rparr>"

definition chain_fail :: "int \<Rightarrow> int \<Rightarrow> int chain" where
  "chain_fail tip k =
     \<lparr> tipReply = Inr tip,
       blockReply = (\<lambda>i. if i = k then Inl SendError else Inr (block_at i)) \<rparr>"

definition chain_down :: "int chain" where
  "chain_down = \<lparr> tipReply = Inl SendError, blockReply = (\<lambda>i. Inl SendError) \<rparr>"

text \<open>
  The tracker as \<^verbatim>\<open>NewChainSentry\<close> builds it, after \<^verbatim>\<open>Init\<close> then saw the tip 100,
  and after a refresh cycle then saw the tip 102.
\<close>

definition tracker_new :: "int ChainSentry" where
  "tracker_new = NewChainSentry ''ETH1''"

definition tracker_100 :: "int ChainSentry" where
  "tracker_100 =
     \<lparr> finalizedBlockDistance = 7, numFinalBlocks = 3, latestBlockNum = 100,
       ChainID = ''ETH1'', blocksQueue = map block_at [90, 91, 92] \<rparr>"

definition tracker_102 :: "int ChainSentry" where
  "tracker_102 =
     \<lparr> finalizedBlockDistance = 7, numFinalBlocks = 3, latestBlockNum = 102,
       ChainID = ''ETH1'', blocksQueue = map block_at [92, 101, 102] \<rparr>"

section \<open>The two fetch loops\<close>

text \<open>
  The recursive equations of the loops are unfolded by hand, one iteration at a time.
\<close>

declare Init_loop.simps [simp del]

declare catchup_loop.simps [simp del]

declare GetLatestBlockData_loop.simps [simp del]

lemma catchup_loop_eq_Init_loop: "catchup_loop ch i hi cs = Init_loop ch i hi cs"
proof (induction ch i hi cs rule: Init_loop.induct)
  case (1 ch i hi cs)
  show ?case
    by (subst catchup_loop.simps, subst Init_loop.simps)
       (auto split: outcome.splits option.splits simp: 1)
qed

lemma Init_loop_Return:
  "Init_loop ch i hi cs = Return cs' \<longleftrightarrow>
     (\<exists>bs. map Inr bs = map (blockReply ch) [i..hi] \<and>
           cs' = cs\<lparr>blocksQueue := blocksQueue cs @ bs\<rparr>)"
proof (induction ch i hi cs rule: Init_loop.induct)
  case (1 ch i hi cs)
  show ?case
  proof (cases "i \<le> hi")
    case False
    then show ?thesis by (subst Init_loop.simps) auto
  next
    case True
    note le = this
    show ?thesis
    proof (cases "blockReply ch i")
      case (Inl e)
      then show ?thesis using le
        by (subst Init_loop.simps) (auto simp: fetchBlockByNum_def upto_rec1 [of i hi])
    next
      case (Inr b)
      have step: "Init_loop ch i hi cs =
          Init_loop ch (i + 1) hi (cs\<lparr>blocksQueue := blocksQueue cs @ [b]\<rparr>)"
        using le Inr by (subst Init_loop.simps) (simp add: fetchBlockByNum_def)
      have IH: "Init_loop ch (i + 1) hi (cs\<lparr>blocksQueue := blocksQueue cs @ [b]\<rparr>) = Return cs' \<longleftrightarrow>
         (\<exists>bs. map Inr bs = map (blockReply ch) [i + 1..hi] \<and>
           cs' = cs\<lparr>blocksQueue := (blocksQueue cs @ [b]) @ bs\<rparr>)"
        using 1 [OF le, of "(b, None)" b None] Inr by (simp add: fetchBlockByNum_def)
      show ?thesis
        unfolding step IH using le Inr
        apply (simp add: upto_rec1 [of i hi])
        apply (rule iffI)
         apply (erule exE)
        subgoal for bs by (rule exI [of _ "b # bs"]) simp
        apply (erule exE)
        subgoal for bs by (cases bs) auto
        done
    qed
  qed
qed

text \<open>
  A loop returns exactly when every block of its range was served, and it has then
  appended the served blocks in the order of their numbers; it never panics, and a
  failing fetch anywhere in the range terminates the process.
\<close>

lemma Init_loop_not_Panic: "Init_loop ch i hi cs \<noteq> Panic"
proof (induction ch i hi cs rule: Init_loop.induct)
  case (1 ch i hi cs)
  show ?case
    by (subst Init_loop.simps)
       (auto split: outcome.splits option.splits simp: 1 fetchBlockByNum_def split: sum.splits)
qed

lemma Init_loop_Fatal:
  assumes "k \<in> {i..hi}" and "blockReply ch k = Inl e"
  shows "Init_loop ch i hi cs = Fatal"
proof (cases "Init_loop ch i hi cs")
  case (Return cs')
  then obtain bs where "map Inr bs = map (blockReply ch) [i..hi]"
    unfolding Init_loop_Return by blast
  moreover have "blockReply ch k \<in> set (map (blockReply ch) [i..hi])"
    using assms(1) by simp
  ultimately have "Inl e \<in> set (map Inr bs)"
    using assms(2) by simp
  then show ?thesis by auto
next
  case Fatal
  then show ?thesis .
next
  case Panic
  then show ?thesis by (simp add: Init_loop_not_Panic)
qed




section \<open>What every Ready tracker satisfies\<close>



section \<open>Running the code on the example chain\<close>

lemmas run_defs = Init_def fetchLatestBlockNum_def SetLatestBlockNum_def fetchBlockByNum_def
  NewChainSentry_def DEFAULT_NUM_FINAL_BLOCKS_def DEFAULT_NUM_SAVED_BLOCKS_def
  catchupOnFinalizedBlocks_def GetLatestBlockNum_def slice_from_def
  chain_ok_def chain_fail_def chain_down_def tracker_new_def tracker_100_def tracker_102_def
  Init_loop.simps catchup_loop.simps

lemma Init_100: "Init (chain_ok 100) tracker_new = Return (None, tracker_100)"
  by (simp add: run_defs)

lemma refresh_102:
  "catchupOnFinalizedBlocks (chain_ok 102) tracker_100 = Return (None, tracker_102)"
  by (simp add: run_defs)



section \<open>The claims\<close>

subsection \<open>C1: a fetch that fails during a refresh cycle\<close>

text \<open>
  C1 as the specification states it: in a refresh cycle in which some fetch fails, the
  cycle reports the failure and leaves tip and window as they were. The code does not
  report: \<^verbatim>\<open>fetchBlockByNum\<close> ends in \<^verbatim>\<open>log.Fatalln\<close>. On the Ready tracker
  \<open>tracker_100\<close>, with the new tip 102 and the fetch of block 101 failing, the cycle
  terminates the process and returns nothing. When the tip fetch itself fails, the
  error is logged, the cycle goes on with the tip \<open>-1\<close> and panics at the slice
  expression.
\<close>

theorem C1_counterexample:
  "Init (chain_ok 100) tracker_new = Return (None, tracker_100) \<and>
   tipReply (chain_fail 102 101) = Inr 102 \<and>
   blockReply (chain_fail 102 101) 101 = Inl SendError \<and>
   catchupOnFinalizedBlocks (chain_fail 102 101) tracker_100 = Fatal \<and>
   tipReply chain_down = Inl SendError \<and>
   catchupOnFinalizedBlocks chain_down tracker_100 = Panic"
  by (simp add: run_defs)

text \<open>
  C1, amended: in every state, a refresh cycle whose tip fetch succeeds and in which the
  fetch of some block \<open>k\<close> between the stored tip (exclusive) and the new tip
  (inclusive) fails does not return to its caller: the process is terminated by
  \<^verbatim>\<open>log.Fatalln\<close>.
\<close>

theorem C1_refresh_block_fetch_failure_is_fatal:
  assumes "tipReply ch = Inr newTip"
    and "k \<in> {latestBlockNum cs + 1..newTip}"
    and "blockReply ch k = Inl e"
  shows "catchupOnFinalizedBlocks ch cs = Fatal"
proof -
  have "latestBlockNum cs \<noteq> newTip"
    using assms(2) by auto
  moreover have "catchup_loop ch (latestBlockNum cs + 1) newTip cs = Fatal"
    unfolding catchup_loop_eq_Init_loop by (rule Init_loop_Fatal [OF assms(2,3)])
  ultimately show ?thesis
    using assms(1)
    by (simp add: catchupOnFinalizedBlocks_def fetchLatestBlockNum_def GetLatestBlockNum_def)
qed

theorem C1_witness:
  "tipReply (chain_fail 105 104) = Inr 105 \<and>
   104 \<in> {latestBlockNum tracker_102 + 1..105} \<and>
   blockReply (chain_fail 105 104) 104 = Inl SendError \<and>
   catchupOnFinalizedBlocks (chain_fail 105 104) tracker_102 = Fatal"
proof -
  have t: "tipReply (chain_fail 105 104) = Inr 105"
    by (simp add: chain_fail_def)
  have k: "104 \<in> {latestBlockNum tracker_102 + 1..105}"
    by (simp add: tracker_102_def)
  have f: "blockReply (chain_fail 105 104) 104 = Inl SendError"
    by (simp add: chain_fail_def)
  show ?thesis
    using t k f C1_refresh_block_fetch_failure_is_fatal [OF t k f] by simp
qed

subsection \<open>C2: the window after a refresh cycle\<close>

text \<open>
  C2: after every successful \<^verbatim>\<open>Init\<close> and refresh cycle the numbers of the window's
  blocks are contiguous and the last one is \<open>tip - finalizedBlockDistance - 1\<close>.
  \<^verbatim>\<open>Init\<close> builds such a window (90, 91, 92 for the tip 100) and
  \<^verbatim>\<open>GetLatestBlockData\<close> relies on it, but a refresh cycle appends the blocks above
  the old tip: from \<open>tracker_100\<close> with the new tip 102 the window becomes 92, 101, 102,
  whose last number is not \<open>102 - 7 - 1 = 94\<close>, and \<^verbatim>\<open>GetLatestBlockData\<close> then
  files the hashes of the blocks 101 and 102 under the numbers 93 and 94.
\<close>

theorem C2_refresh_breaks_contiguity:
  "Init (chain_ok 100) tracker_new = Return (None, tracker_100) \<and>
   map number_of (blocksQueue tracker_100) = [Val 90, Val 91, Val 92] \<and>
   catchupOnFinalizedBlocks (chain_ok 102) tracker_100 = Return (None, tracker_102) \<and>
   latestBlockNum tracker_102 = 102 \<and>
   map number_of (blocksQueue tracker_102) = [Val 92, Val 101, Val 102] \<and>
   GetLatestBlockData tracker_102 =
     Return (102, [92 \<mapsto> Val 1092, 93 \<mapsto> Val 1101, 94 \<mapsto> Val 1102], None)"
proof -
  have "map number_of (blocksQueue tracker_100) = [Val 90, Val 91, Val 92]"
    by (simp add: tracker_100_def number_of_def index_map_def block_at_def)
  moreover have "map number_of (blocksQueue tracker_102) = [Val 92, Val 101, Val 102]"
    by (simp add: tracker_102_def number_of_def index_map_def block_at_def)
  moreover have "latestBlockNum tracker_102 = 102"
    by (simp add: tracker_102_def)
  moreover have "GetLatestBlockData tracker_102 =
     Return (102, [92 \<mapsto> Val 1092, 93 \<mapsto> Val 1101, 94 \<mapsto> Val 1102], None)"
    by (simp add: GetLatestBlockData_def GetLatestBlockNum_def tracker_102_def
        GetLatestBlockData_loop.simps index_map_def block_at_def)
  ultimately show ?thesis
    using Init_100 refresh_102 by simp
qed

subsection \<open>C3: the length of the window\<close>




subsection \<open>C4: a fetch that fails during Init\<close>




subsection \<open>C5: the keys of GetLatestBlockData\<close>



subsection \<open>C6: a refresh cycle that sees the stored tip again\<close>

text \<open>
  C6: a refresh cycle that observes a tip equal to the stored tip returns success (a
  nil error) and changes neither tip nor window, and so do two such cycles in a row.
  This holds in every state, Ready or not.
\<close>

theorem C6_refresh_same_tip_is_noop:
  assumes "tipReply ch1 = Inr (latestBlockNum cs)"
    and "tipReply ch2 = Inr (latestBlockNum cs)"
  shows "catchupOnFinalizedBlocks ch1 cs = Return (None, cs) \<and>
         Start [ch1, ch2] cs = Return cs"
proof -
  have "catchupOnFinalizedBlocks ch cs = Return (None, cs)"
    if "tipReply ch = Inr (latestBlockNum cs)" for ch
    using that by (simp add: catchupOnFinalizedBlocks_def fetchLatestBlockNum_def)
  then show ?thesis
    using assms by simp
qed

theorem C6_witness:
  "tipReply (chain_ok 100) = Inr (latestBlockNum tracker_100) \<and>
   tipReply (chain_fail 100 101) = Inr (latestBlockNum tracker_100) \<and>
   catchupOnFinalizedBlocks (chain_ok 100) tracker_100 = Return (None, tracker_100) \<and>
   Start [chain_ok 100, chain_fail 100 101] tracker_100 = Return tracker_100"
proof -
  have t1: "tipReply (chain_ok 100) = Inr (latestBlockNum tracker_100)"
    by (simp add: chain_ok_def tracker_100_def)
  have t2: "tipReply (chain_fail 100 101) = Inr (latestBlockNum tracker_100)"
    by (simp add: chain_fail_def tracker_100_def)
  show ?thesis
    using t1 t2 C6_refresh_same_tip_is_noop [OF t1 t2] by blast
qed

subsection \<open>C7: what a successful Init fetches and stores\<close>



subsection \<open>C8: reading before Init\<close>

text \<open>
  C8 as the specification states it: a read made before a successful \<^verbatim>\<open>Init\<close> fails
  with a \<open>NotReady\<close> error. The code has no such error: on the tracker that
  \<^verbatim>\<open>NewChainSentry\<close> built, \<^verbatim>\<open>GetLatestBlockNum\<close> returns the zero value 0, and
  \<^verbatim>\<open>GetLatestBlockData\<close> does not return an error either but panics.
\<close>

theorem C8_counterexample:
  "GetLatestBlockNum tracker_new = 0 \<and> GetLatestBlockData tracker_new = Panic"
  by (simp add: GetLatestBlockNum_def GetLatestBlockData_def tracker_new_def
      NewChainSentry_def DEFAULT_NUM_FINAL_BLOCKS_def DEFAULT_NUM_SAVED_BLOCKS_def
      GetLatestBlockData_loop.simps)

text \<open>
  C8, amended: on the tracker as \<^verbatim>\<open>NewChainSentry\<close> builds it, whatever the chain
  identifier, \<^verbatim>\<open>GetLatestBlockNum\<close> (which has no error result) returns the zero
  value 0 of the stored tip, and \<^verbatim>\<open>GetLatestBlockData\<close> returns no error: reading the
  first element of the empty queue raises a runtime panic.
\<close>

theorem C8_reads_before_Init:
  "GetLatestBlockNum (NewChainSentry chainID) = 0 \<and>
   GetLatestBlockData (NewChainSentry chainID) = Panic"
  by (simp add: GetLatestBlockNum_def GetLatestBlockData_def
      NewChainSentry_def DEFAULT_NUM_FINAL_BLOCKS_def DEFAULT_NUM_SAVED_BLOCKS_def
      GetLatestBlockData_loop.simps)

subsection \<open>C9: a refresh cycle that sees a smaller tip\<close>




subsection \<open>C10: a refresh cycle keeps the length of the window\<close>



end
